theory Spec2Isabelle
  imports Main "HOL-Library.Sublist"
begin

section \<open>CareerMate: the three tools and the result dispatch of \<^verbatim>\<open>careermate.py\<close>\<close>

subsection \<open>Strings\<close>

text \<open>
  A Python \<^verbatim>\<open>str\<close> is modelled as a \<^typ>\<open>string\<close>, each \<^typ>\<open>char\<close> standing for one code
  point below 256 (Latin-1). On that range \<^verbatim>\<open>str.lower()\<close> works character by character:
  it moves \<^verbatim>\<open>A\<close>..\<^verbatim>\<open>Z\<close> (65..90) and the accented capitals 192..222, the multiplication sign
  215 excepted, up by 32 and leaves every other code point alone.
\<close>

definition lower_char :: "char \<Rightarrow> char" where
  "lower_char c =
     (let n = (of_char c :: nat)
      in if (65 \<le> n \<and> n \<le> 90) \<or> (192 \<le> n \<and> n \<le> 222 \<and> n \<noteq> 215)
         then char_of (n + 32) else c)"

definition lower :: "string \<Rightarrow> string" where
  "lower s = map lower_char s"

text \<open>
  \<^verbatim>\<open>a in b\<close> on two strings is the contiguous-substring test; \<^const>\<open>sublist\<close> is that
  test on lists (\<open>sublist xs ys\<close> holds when \<open>ys = ps @ xs @ ss\<close> for some \<open>ps\<close>, \<open>ss\<close>).
\<close>

definition str_in :: "string \<Rightarrow> string \<Rightarrow> bool" where
  "str_in needle hay = sublist needle hay"

text \<open>\<^verbatim>\<open>sep.join(xs)\<close>.\<close>

fun join :: "string \<Rightarrow> string list \<Rightarrow> string" where
  "join sep [] = []"
| "join sep [x] = x"
| "join sep (x # y # ys) = x @ sep @ join sep (y # ys)"

subsection \<open>Module-level data\<close>

text \<open>An entry of \<^verbatim>\<open>JOB_LISTINGS\<close>: a dict with the keys title, company, location, skills.\<close>

record job =
  title :: string
  company :: string
  location :: string
  skills :: "string list"

text \<open>
  The three module-level variables the tools read. A dict is a finite map; the list of
  listings keeps its order.
\<close>

record globals =
  JOB_SKILLS :: "string \<rightharpoonup> string list"
  JOB_LISTINGS :: "job list"
  COURSES :: "string \<rightharpoonup> string list"

text \<open>The values the module gives them (lines 40 to 58). In a dict literal a later key wins.\<close>

definition module_globals :: globals where
  "module_globals = \<lparr>
     JOB_SKILLS = [
       ''data scientist'' \<mapsto> [''Python'', ''SQL'', ''Statistics'', ''Machine Learning'', ''Pandas''],
       ''web developer'' \<mapsto> [''HTML'', ''CSS'', ''JavaScript'', ''React'', ''Node.js''],
       ''data analyst'' \<mapsto> [''Excel'', ''SQL'', ''Power BI'', ''Python'', ''Statistics'']],
     JOB_LISTINGS = [
       \<lparr>title = ''Junior Data Scientist'', company = ''TechCorp'', location = ''Remote'',
        skills = [''Python'', ''SQL'']\<rparr>,
       \<lparr>title = ''Web Developer'', company = ''WebWorld'', location = ''New York'',
        skills = [''JavaScript'', ''React'']\<rparr>,
       \<lparr>title = ''Data Analyst'', company = ''DataWorks'', location = ''San Francisco'',
        skills = [''Excel'', ''SQL'', ''Python'']\<rparr>],
     COURSES = [
       ''SQL'' \<mapsto> [''SQL for Beginners (Coursera) - https://example.com/sql'',
                  ''Learn SQL (Udemy) - https://example.com/sql2''],
       ''Statistics'' \<mapsto> [''Intro to Statistics (Khan Academy) - https://example.com/stat''],
       ''Pandas'' \<mapsto> [''Data Analysis with Pandas (YouTube) - https://example.com/pandas''],
       ''Python'' \<mapsto> [''Python 101 (Codecademy) - https://example.com/py''],
       ''React'' \<mapsto> [''React Crash Course (Ostad) - https://ostad.app/course/react-native-workshop'']]
   \<rparr>"

subsection \<open>The tools\<close>

text \<open>
  Each tool takes the module state and its arguments and returns its value together with
  the module state after the call, so that what a call does to the three variables is part
  of the model.
\<close>

text \<open>
  \<^verbatim>\<open>get_missing_skills\<close> returns one of two dicts: \<^verbatim>\<open>{"error": msg}\<close>, here \<open>Inl msg\<close>, or the
  dict with the keys target_job, missing_skills, explanation, here \<open>Inr\<close> of this record.
\<close>

record gap =
  target_job :: string
  missing_skills :: "string list"
  explanation :: string

text \<open>
  \<^verbatim>\<open>if not required_skills\<close> is true for \<^verbatim>\<open>None\<close> (no such key) and for the empty list.
\<close>

definition get_missing_skills ::
  "globals \<Rightarrow> string list \<Rightarrow> string \<Rightarrow> (string + gap) \<times> globals" where
  "get_missing_skills g user_skills tj =
     (case JOB_SKILLS g (lower tj) of
        None \<Rightarrow> (Inl (''No data for job: '' @ tj), g)
      | Some required_skills \<Rightarrow>
          if required_skills = [] then (Inl (''No data for job: '' @ tj), g)
          else
            let missing = filter (\<lambda>skill. skill \<notin> set user_skills) required_skills
            in (Inr \<lparr>target_job = tj, missing_skills = missing,
                      explanation = ''To become a '' @ tj @ '', you need to learn: ''
                                    @ join '', '' missing\<rparr>, g))"

text \<open>
  The loop of \<^verbatim>\<open>find_jobs\<close> over \<^verbatim>\<open>JOB_LISTINGS\<close>, with the local list \<^verbatim>\<open>matches\<close>.
  \<^verbatim>\<open>if location and ...\<close>: \<^verbatim>\<open>None\<close> and the empty string both switch the location filter off.
\<close>

fun find_jobs_loop ::
  "globals \<Rightarrow> string list \<Rightarrow> string option \<Rightarrow> job list \<Rightarrow> job list \<Rightarrow> job list \<times> globals" where
  "find_jobs_loop g user_skills loc [] matches = (matches, g)"
| "find_jobs_loop g user_skills loc (j # rest) matches =
     (if list_all (\<lambda>skill. skill \<in> set user_skills) (skills j) then
        (case loc of
           None \<Rightarrow> find_jobs_loop g user_skills loc rest (matches @ [j])
         | Some l \<Rightarrow>
             if l \<noteq> [] \<and> \<not> str_in (lower l) (lower (location j))
             then find_jobs_loop g user_skills loc rest matches
             else find_jobs_loop g user_skills loc rest (matches @ [j]))
      else find_jobs_loop g user_skills loc rest matches)"

definition find_jobs :: "globals \<Rightarrow> string list \<Rightarrow> string option \<Rightarrow> job list \<times> globals" where
  "find_jobs g user_skills loc = find_jobs_loop g user_skills loc (JOB_LISTINGS g) []"

text \<open>An element of the list \<^verbatim>\<open>recommend_courses\<close> returns: a dict with the keys skill, courses.\<close>

record recommendation =
  skill :: string
  courses :: "string list"

text \<open>\<^verbatim>\<open>if courses\<close> is false for \<^verbatim>\<open>None\<close> and for the empty list.\<close>

fun recommend_courses_loop ::
  "globals \<Rightarrow> string list \<Rightarrow> recommendation list \<Rightarrow> recommendation list \<times> globals" where
  "recommend_courses_loop g [] recommendations = (recommendations, g)"
| "recommend_courses_loop g (sk # rest) recommendations =
     (case COURSES g sk of
        None \<Rightarrow> recommend_courses_loop g rest recommendations
      | Some cs \<Rightarrow>
          if cs \<noteq> []
          then recommend_courses_loop g rest (recommendations @ [\<lparr>skill = sk, courses = cs\<rparr>])
          else recommend_courses_loop g rest recommendations)"

definition recommend_courses :: "globals \<Rightarrow> string list \<Rightarrow> recommendation list \<times> globals" where
  "recommend_courses g missing = recommend_courses_loop g missing []"

subsection \<open>Observers used in the statements\<close>

text \<open>The \<^verbatim>\<open>missing_skills\<close> entry of what \<^verbatim>\<open>get_missing_skills\<close> returned, if it has one.\<close>

definition gap_missing :: "string + gap \<Rightarrow> string list option" where
  "gap_missing r = (case r of Inl msg \<Rightarrow> None | Inr d \<Rightarrow> Some (missing_skills d))"

text \<open>
  Two strings differ only in case: they have the same length and, position by position,
  the characters are equal or one is the lower-case form of the other.
\<close>

definition same_up_to_case :: "string \<Rightarrow> string \<Rightarrow> bool" where
  "same_up_to_case a b =
     list_all2 (\<lambda>x y. x = y \<or> lower_char x = y \<or> x = lower_char y) a b"

text \<open>
  The test \<^verbatim>\<open>find_jobs\<close> applies to one listing: all of its skills are among the caller's,
  and it passes the location filter.
\<close>

definition job_matches :: "string list \<Rightarrow> string option \<Rightarrow> job \<Rightarrow> bool" where
  "job_matches user_skills loc j =
     (list_all (\<lambda>sk. sk \<in> set user_skills) (skills j) \<and>
      (case loc of None \<Rightarrow> True | Some l \<Rightarrow> str_in (lower l) (lower (location j))))"

subsection \<open>The final output and the dispatch in \<^verbatim>\<open>main\<close>\<close>

text \<open>
  \<^verbatim>\<open>result.final_output\<close> is untyped. The values the four agents are declared to produce:
  an instance of one of the three pydantic classes (with its fields in the order of the
  class), a list, or the plain text of the controller agent.
\<close>

datatype py_value =
    SkillGap string "string list" string
  | JobListing string string string "string list"
  | CourseRecommendation string "string list"
  | PyList "py_value list"
  | PyStr string

text \<open>\<^verbatim>\<open>isinstance(x, SkillGap)\<close>, \<^verbatim>\<open>isinstance(x, JobListing)\<close>,
  \<^verbatim>\<open>isinstance(x, CourseRecommendation)\<close>, \<^verbatim>\<open>isinstance(x, list)\<close>.\<close>

fun is_SkillGap :: "py_value \<Rightarrow> bool" where
  "is_SkillGap (SkillGap tj ms ex) = True"
| "is_SkillGap v = False"

fun is_JobListing :: "py_value \<Rightarrow> bool" where
  "is_JobListing (JobListing t c l rs) = True"
| "is_JobListing v = False"

fun is_CourseRecommendation :: "py_value \<Rightarrow> bool" where
  "is_CourseRecommendation (CourseRecommendation sk cs) = True"
| "is_CourseRecommendation v = False"

text \<open>The conditions of lines 198, 205 and 212.\<close>

definition skill_gap_test :: "py_value \<Rightarrow> bool" where
  "skill_gap_test output = is_SkillGap output"

definition job_listings_test :: "py_value \<Rightarrow> bool" where
  "job_listings_test output =
     (case output of PyList xs \<Rightarrow> list_all is_JobListing xs | _ \<Rightarrow> False)"

definition course_recommendations_test :: "py_value \<Rightarrow> bool" where
  "course_recommendations_test output =
     (case output of PyList xs \<Rightarrow> list_all is_CourseRecommendation xs | _ \<Rightarrow> False)"

text \<open>The branch of the \<^verbatim>\<open>if\<close>/\<^verbatim>\<open>elif\<close>/\<^verbatim>\<open>else\<close> chain that \<^verbatim>\<open>main\<close> runs, named by what it prints.\<close>

datatype branch = SkillGapAnalysis | JobListings | CourseRecommendations | PrintOutput

definition main_branch :: "py_value \<Rightarrow> branch" where
  "main_branch output =
     (if skill_gap_test output then SkillGapAnalysis
      else if job_listings_test output then JobListings
      else if course_recommendations_test output then CourseRecommendations
      else PrintOutput)"

section \<open>Properties\<close>

subsection \<open>Auxiliary facts\<close>

lemma lower_char_idem: "lower_char (lower_char c) = lower_char c"
  by (auto simp add: lower_char_def Let_def)

lemma same_up_to_case_lower: "same_up_to_case a b \<Longrightarrow> lower a = lower b"
  unfolding same_up_to_case_def lower_def
  by (induction a b rule: list_all2_induct) (auto simp: lower_char_idem)

lemma str_in_empty: "str_in [] hay"
  by (simp add: str_in_def)

text \<open>Both loops only ever extend their accumulator and hand the module state through.\<close>

lemma find_jobs_loop_eq:
  "find_jobs_loop g us loc js acc = (acc @ filter (job_matches us loc) js, g)"
  by (induction js arbitrary: acc)
     (auto simp: job_matches_def str_in_empty lower_def split: option.splits)

lemma find_jobs_eq: "find_jobs g us loc = (filter (job_matches us loc) (JOB_LISTINGS g), g)"
  by (simp add: find_jobs_def find_jobs_loop_eq)

lemma recommend_courses_loop_eq:
  "recommend_courses_loop g ms acc =
     (acc @ map (\<lambda>sk. \<lparr>skill = sk, courses = the (COURSES g sk)\<rparr>)
              (filter (\<lambda>sk. case COURSES g sk of None \<Rightarrow> False | Some cs \<Rightarrow> cs \<noteq> []) ms), g)"
  by (induction ms arbitrary: acc) (auto split: option.splits)

text \<open>No list in the module's two dicts is empty, so the truth tests of lines 75 and 121
  fail only on a missing key there.\<close>

lemma module_job_skills_nonempty:
  "JOB_SKILLS module_globals k = Some req \<Longrightarrow> req \<noteq> []"
  by (auto simp: module_globals_def split: if_splits)

lemma module_courses_nonempty:
  "COURSES module_globals k = Some cs \<Longrightarrow> cs \<noteq> []"
  by (auto simp: module_globals_def split: if_splits)

lemma get_missing_skills_known:
  assumes "JOB_SKILLS g (lower tj) = Some req" and "req \<noteq> []"
  shows "get_missing_skills g us tj =
           (Inr \<lparr>target_job = tj,
                 missing_skills = filter (\<lambda>sk. sk \<notin> set us) req,
                 explanation = ''To become a '' @ tj @ '', you need to learn: ''
                               @ join '', '' (filter (\<lambda>sk. sk \<notin> set us) req)\<rparr>, g)"
  using assms by (simp add: get_missing_skills_def Let_def)

lemma filter_absent_empty_iff: "filter (\<lambda>sk. sk \<notin> set us) req = [] \<longleftrightarrow> set req \<subseteq> set us"
  by (auto simp: filter_empty_conv)

text \<open>Away from the empty list, the two list conditions of \<^verbatim>\<open>main\<close> exclude each other.\<close>

lemma list_tests_exclusive_unless_empty:
  "v \<noteq> PyList [] \<Longrightarrow> \<not> (job_listings_test v \<and> course_recommendations_test v)"
proof (cases v)
  case (PyList xs)
  assume "v \<noteq> PyList []"
  with PyList obtain x rest where "xs = x # rest"
    by (cases xs) auto
  with PyList show ?thesis
    by (cases x) (simp_all add: job_listings_test_def course_recommendations_test_def)
qed (simp_all add: job_listings_test_def)

subsection \<open>The skill-gap tool\<close>

text \<open>
  C1. For every target job whose lower-cased title is a key of \<^verbatim>\<open>JOB_SKILLS\<close> and every
  list of caller skills, \<^verbatim>\<open>get_missing_skills\<close> returns the result dict, and its
  \<^verbatim>\<open>missing_skills\<close> is the required-skill list with exactly the skills that occur in the
  caller's list filtered out, in the order of the required-skill list; it is empty if and
  only if every required skill is among the caller's skills.
\<close>

theorem skill_gap_missing_is_ordered_difference:
  assumes "JOB_SKILLS module_globals (lower tj) = Some req"
  shows "\<exists>d. fst (get_missing_skills module_globals us tj) = Inr d \<and>
             target_job d = tj \<and>
             missing_skills d = filter (\<lambda>sk. sk \<notin> set us) req \<and>
             (missing_skills d = [] \<longleftrightarrow> set req \<subseteq> set us)"
proof -
  from assms have "req \<noteq> []"
    by (rule module_job_skills_nonempty)
  with assms show ?thesis
    by (simp add: get_missing_skills_known filter_absent_empty_iff)
qed

theorem skill_gap_missing_is_ordered_difference_witness:
  "\<exists>d. fst (get_missing_skills module_globals [''SQL'', ''Pandas'', ''Go''] ''Data Scientist'')
         = Inr d \<and>
       target_job d = ''Data Scientist'' \<and>
       missing_skills d = [''Python'', ''Statistics'', ''Machine Learning''] \<and>
       missing_skills d \<noteq> [] \<and>
       \<not> set [''Python'', ''SQL'', ''Statistics'', ''Machine Learning'', ''Pandas'']
           \<subseteq> set [''SQL'', ''Pandas'', ''Go'']"
proof -
  have h: "JOB_SKILLS module_globals (lower ''Data Scientist'') =
             Some [''Python'', ''SQL'', ''Statistics'', ''Machine Learning'', ''Pandas'']"
    by code_simp
  show ?thesis
    using skill_gap_missing_is_ordered_difference [OF h, of "[''SQL'', ''Pandas'', ''Go'']"]
    by simp
qed

text \<open>
  C9. The job title is looked up in lower case: two titles that differ only in case reach
  the same entry of \<^verbatim>\<open>JOB_SKILLS\<close> and so give the same \<^verbatim>\<open>missing_skills\<close> (or both the
  error dict). Skills are compared by exact string membership: for a known job,
  \<^verbatim>\<open>missing_skills\<close> is the required list without exactly those skills that occur, spelled
  the same, in the caller's list; so a required skill the caller lists is removed, and a
  required skill the caller lists only in another case, anywhere in the list, stays.
\<close>

theorem skill_gap_case_handling:
  "(same_up_to_case tj1 tj2 \<longrightarrow>
      JOB_SKILLS g (lower tj1) = JOB_SKILLS g (lower tj2) \<and>
      gap_missing (fst (get_missing_skills g us tj1)) =
      gap_missing (fst (get_missing_skills g us tj2)))
   \<and> (JOB_SKILLS g (lower tj) = Some req \<longrightarrow>
        gap_missing (fst (get_missing_skills g us tj)) =
          (if req = [] then None else Some (filter (\<lambda>s. s \<notin> set us) req)))
   \<and> (JOB_SKILLS g (lower tj) = Some req \<and> sk \<in> set req \<longrightarrow>
        (\<exists>d. fst (get_missing_skills g us tj) = Inr d \<and>
             (sk \<in> set (missing_skills d) \<longleftrightarrow> sk \<notin> set us) \<and>
             (u \<in> set us \<and> same_up_to_case u sk \<and> sk \<notin> set us \<longrightarrow>
                u \<noteq> sk \<and> sk \<in> set (missing_skills d))))"
proof (intro conjI impI)
  assume "same_up_to_case tj1 tj2"
  then have eq: "lower tj1 = lower tj2"
    by (rule same_up_to_case_lower)
  then show "JOB_SKILLS g (lower tj1) = JOB_SKILLS g (lower tj2)"
    by simp
  from eq show "gap_missing (fst (get_missing_skills g us tj1)) =
        gap_missing (fst (get_missing_skills g us tj2))"
    by (simp add: get_missing_skills_def gap_missing_def Let_def split: option.splits)
next
  assume "JOB_SKILLS g (lower tj) = Some req"
  then show "gap_missing (fst (get_missing_skills g us tj)) =
          (if req = [] then None else Some (filter (\<lambda>s. s \<notin> set us) req))"
    by (simp add: get_missing_skills_def gap_missing_def Let_def)
next
  assume a: "JOB_SKILLS g (lower tj) = Some req \<and> sk \<in> set req"
  then have "req \<noteq> []"
    by auto
  with a show "\<exists>d. fst (get_missing_skills g us tj) = Inr d \<and>
             (sk \<in> set (missing_skills d) \<longleftrightarrow> sk \<notin> set us) \<and>
             (u \<in> set us \<and> same_up_to_case u sk \<and> sk \<notin> set us \<longrightarrow>
                u \<noteq> sk \<and> sk \<in> set (missing_skills d))"
    by (auto simp: get_missing_skills_known)
qed

theorem skill_gap_case_handling_witness:
  "gap_missing (fst (get_missing_skills module_globals [''python'', ''SQL'', ''excel''] ''Data Analyst'')) =
     Some [''Excel'', ''Power BI'', ''Python'', ''Statistics'']
   \<and> gap_missing (fst (get_missing_skills module_globals [''python'', ''SQL'', ''excel''] ''DATA analyst'')) =
     Some [''Excel'', ''Power BI'', ''Python'', ''Statistics'']
   \<and> ''python'' \<noteq> ''Python''
   \<and> (\<exists>d. fst (get_missing_skills module_globals [''python'', ''SQL'', ''excel''] ''Data Analyst'') = Inr d
          \<and> ''Python'' \<in> set (missing_skills d))"
proof -
  have a: "same_up_to_case ''Data Analyst'' ''DATA analyst''"
    by code_simp
  have b: "JOB_SKILLS module_globals (lower ''Data Analyst'') =
             Some [''Excel'', ''SQL'', ''Power BI'', ''Python'', ''Statistics'']"
    by code_simp
  have c: "same_up_to_case ''python'' ''Python''"
    by code_simp
  note t = skill_gap_case_handling [of "''Data Analyst''" "''DATA analyst''" module_globals
        "[''python'', ''SQL'', ''excel'']"
        "''Data Analyst''" "[''Excel'', ''SQL'', ''Power BI'', ''Python'', ''Statistics'']"
        "''Python''" "''python''"]
  from t a have same: "gap_missing (fst (get_missing_skills module_globals
        [''python'', ''SQL'', ''excel''] ''Data Analyst'')) =
      gap_missing (fst (get_missing_skills module_globals
        [''python'', ''SQL'', ''excel''] ''DATA analyst''))"
    by blast
  from t b have exact: "gap_missing (fst (get_missing_skills module_globals
        [''python'', ''SQL'', ''excel''] ''Data Analyst'')) =
      (if [''Excel'', ''SQL'', ''Power BI'', ''Python'', ''Statistics''] = [] then None
       else Some (filter (\<lambda>s. s \<notin> set [''python'', ''SQL'', ''excel''])
                    [''Excel'', ''SQL'', ''Power BI'', ''Python'', ''Statistics'']))"
    by blast
  have first: "gap_missing (fst (get_missing_skills module_globals
        [''python'', ''SQL'', ''excel''] ''Data Analyst'')) =
      Some [''Excel'', ''Power BI'', ''Python'', ''Statistics'']"
    unfolding exact by simp
  have held: "''python'' \<in> set [''python'', ''SQL'', ''excel'']"
    and absent: "''Python'' \<notin> set [''python'', ''SQL'', ''excel'']"
    and required: "''Python'' \<in> set [''Excel'', ''SQL'', ''Power BI'', ''Python'', ''Statistics'']"
    by simp_all
  from t b required held c absent
  have kept: "''python'' \<noteq> ''Python'' \<and>
      (\<exists>d. fst (get_missing_skills module_globals [''python'', ''SQL'', ''excel''] ''Data Analyst'')
             = Inr d \<and> ''Python'' \<in> set (missing_skills d))"
    by blast
  from first same kept show ?thesis
    by simp
qed

text \<open>
  C10. When the lower-cased target job is not a key of \<^verbatim>\<open>JOB_SKILLS\<close>, the tool returns
  the dict that holds only the error message, whatever the caller's skills are: the value
  does not depend on them and has none of the fields target_job, missing_skills,
  explanation.
\<close>

theorem unknown_job_gives_error:
  assumes "JOB_SKILLS g (lower tj) = None"
  shows "fst (get_missing_skills g us tj) = Inl (''No data for job: '' @ tj)"
  using assms by (simp add: get_missing_skills_def)

theorem unknown_job_gives_error_witness:
  "fst (get_missing_skills module_globals [''Python'', ''SQL''] ''Astronaut'') =
     Inl ''No data for job: Astronaut''"
proof -
  have h: "JOB_SKILLS module_globals (lower ''Astronaut'') = None"
    by code_simp
  show ?thesis
    using unknown_job_gives_error [OF h, of "[''Python'', ''SQL'']"] by simp
qed

subsection \<open>The job-matching tool\<close>

text \<open>
  C2. For every list of caller skills and every optional location, \<^verbatim>\<open>find_jobs\<close> returns a
  listing if and only if it is one of \<^verbatim>\<open>JOB_LISTINGS\<close>, each of its skills is among the
  caller's skills and, when a location is given, the lower-cased location is a substring
  of the listing's lower-cased location.
\<close>

theorem find_jobs_returns_iff:
  "j \<in> set (fst (find_jobs g us loc)) \<longleftrightarrow>
     j \<in> set (JOB_LISTINGS g) \<and>
     (\<forall>sk \<in> set (skills j). sk \<in> set us) \<and>
     (\<forall>l. loc = Some l \<longrightarrow> str_in (lower l) (lower (location j)))"
  by (auto simp: find_jobs_eq job_matches_def list_all_iff split: option.splits)

theorem find_jobs_returns_iff_witness:
  "\<lparr>title = ''Web Developer'', company = ''WebWorld'', location = ''New York'',
     skills = [''JavaScript'', ''React'']\<rparr>
     \<in> set (fst (find_jobs module_globals [''React'', ''Python'', ''JavaScript''] (Some ''york'')))
   \<and> \<lparr>title = ''Junior Data Scientist'', company = ''TechCorp'', location = ''Remote'',
     skills = [''Python'', ''SQL'']\<rparr>
     \<notin> set (fst (find_jobs module_globals [''React'', ''Python'', ''JavaScript''] (Some ''york'')))"
proof -
  have a: "str_in (lower ''york'') (lower ''New York'')"
    by code_simp
  show ?thesis
    using a
    unfolding find_jobs_returns_iff
    by (simp add: module_globals_def)
qed

text \<open>
  C4. Job matching is monotone in the caller's skills: a listing returned for a skill
  list and a location is still returned when one more skill is appended to the list.
\<close>

theorem find_jobs_monotone:
  assumes "j \<in> set (fst (find_jobs g us loc))"
  shows "j \<in> set (fst (find_jobs g (us @ [extra]) loc))"
  using assms by (auto simp: find_jobs_eq job_matches_def list_all_iff)

theorem find_jobs_monotone_witness:
  "\<lparr>title = ''Junior Data Scientist'', company = ''TechCorp'', location = ''Remote'',
     skills = [''Python'', ''SQL'']\<rparr>
     \<in> set (fst (find_jobs module_globals ([''SQL'', ''Python''] @ [''Knitting''])
                  (Some ''remote'')))"
proof -
  have h: "\<lparr>title = ''Junior Data Scientist'', company = ''TechCorp'', location = ''Remote'',
     skills = [''Python'', ''SQL'']\<rparr>
     \<in> set (fst (find_jobs module_globals [''SQL'', ''Python''] (Some ''remote'')))"
    by code_simp
  show ?thesis
    by (rule find_jobs_monotone [OF h])
qed

subsection \<open>The course-recommendation tool\<close>

text \<open>
  C3. For every list of requested skills, \<^verbatim>\<open>recommend_courses\<close> returns a list (it has no
  error value): one entry, holding the catalog's courses, for each requested skill that is
  a key of \<^verbatim>\<open>COURSES\<close>, in the order of the request, and nothing for a skill that is not a
  key. So the output has an entry for a skill if and only if the skill was requested and
  is in the catalog.
\<close>

theorem recommend_courses_catalog_entries_in_order:
  "fst (recommend_courses module_globals ms) =
     map (\<lambda>sk. \<lparr>skill = sk, courses = the (COURSES module_globals sk)\<rparr>)
         (filter (\<lambda>sk. sk \<in> dom (COURSES module_globals)) ms)
   \<and> map skill (fst (recommend_courses module_globals ms)) =
       filter (\<lambda>sk. sk \<in> dom (COURSES module_globals)) ms
   \<and> ((\<exists>r \<in> set (fst (recommend_courses module_globals ms)). skill r = sk) \<longleftrightarrow>
        sk \<in> set ms \<and> sk \<in> dom (COURSES module_globals))"
proof -
  have same: "(\<lambda>sk. case COURSES module_globals sk of None \<Rightarrow> False | Some cs \<Rightarrow> cs \<noteq> []) =
              (\<lambda>sk. sk \<in> dom (COURSES module_globals))"
    by (auto simp: fun_eq_iff dom_def dest: module_courses_nonempty split: option.splits)
  have out: "fst (recommend_courses module_globals ms) =
     map (\<lambda>sk. \<lparr>skill = sk, courses = the (COURSES module_globals sk)\<rparr>)
         (filter (\<lambda>sk. sk \<in> dom (COURSES module_globals)) ms)"
    by (simp add: recommend_courses_def recommend_courses_loop_eq same)
  have names: "map skill (fst (recommend_courses module_globals ms)) =
       filter (\<lambda>sk. sk \<in> dom (COURSES module_globals)) ms"
    unfolding out by (simp add: comp_def)
  have "(\<exists>r \<in> set (fst (recommend_courses module_globals ms)). skill r = sk) \<longleftrightarrow>
          sk \<in> set (map skill (fst (recommend_courses module_globals ms)))"
    by force
  also have "\<dots> \<longleftrightarrow> sk \<in> set ms \<and> sk \<in> dom (COURSES module_globals)"
    unfolding names by auto
  finally show ?thesis
    using out names by blast
qed

theorem recommend_courses_catalog_entries_in_order_witness:
  "fst (recommend_courses module_globals [''React'', ''Go'', ''Pandas'']) =
     [\<lparr>skill = ''React'',
       courses = [''React Crash Course (Ostad) - https://ostad.app/course/react-native-workshop'']\<rparr>,
      \<lparr>skill = ''Pandas'',
       courses = [''Data Analysis with Pandas (YouTube) - https://example.com/pandas'']\<rparr>]"
  using recommend_courses_catalog_entries_in_order [of "[''React'', ''Go'', ''Pandas'']"]
  by (simp add: module_globals_def)

subsection \<open>Frame\<close>

text \<open>
  C8. A call of any of the three tools, with any arguments and in any module state, leaves
  \<^verbatim>\<open>JOB_SKILLS\<close>, \<^verbatim>\<open>JOB_LISTINGS\<close> and \<^verbatim>\<open>COURSES\<close> as they were.
\<close>

theorem tools_leave_globals_unchanged:
  "snd (get_missing_skills g us tj) = g \<and>
   snd (find_jobs g us' loc) = g \<and>
   snd (recommend_courses g ms) = g"
  by (simp add: get_missing_skills_def Let_def find_jobs_eq recommend_courses_def
        recommend_courses_loop_eq split: option.splits)

theorem tools_leave_globals_unchanged_witness:
  "snd (get_missing_skills module_globals [''SQL''] ''Web Developer'') = module_globals \<and>
   snd (find_jobs module_globals [''SQL'', ''Python''] (Some ''Remote'')) = module_globals \<and>
   snd (recommend_courses module_globals [''SQL'', ''Go'']) = module_globals"
  using tools_leave_globals_unchanged
    [where g = module_globals and us = "[''SQL'']" and tj = "''Web Developer''"
       and us' = "[''SQL'', ''Python'']" and loc = "Some ''Remote''" and ms = "[''SQL'', ''Go'']"]
  by simp

subsection \<open>The dispatch on the final output\<close>

text \<open>
  C6. The claim is that no final output passes the test of more than one variant. The
  empty list does: \<^verbatim>\<open>all\<close> over no elements is true, so the conditions of lines 205 and 212
  both hold for it, and \<^verbatim>\<open>main\<close> takes the job-listings branch. The empty list is what the
  course tool returns for a request with no skill of the catalog.
\<close>

theorem empty_list_passes_both_list_tests:
  "fst (recommend_courses module_globals [''Go'']) = [] \<and>
   job_listings_test (PyList []) \<and>
   course_recommendations_test (PyList []) \<and>
   main_branch (PyList []) = JobListings"
  by (simp add: recommend_courses_def module_globals_def job_listings_test_def
        course_recommendations_test_def main_branch_def skill_gap_test_def)

end
